theory Spec2Isabelle
  imports Complex_Main
begin

section \<open>Event kinds and event specifications (out/EventSpec.js)\<close>

text \<open>
  The eight event kinds of \<^verbatim>\<open>evtTypeStrings\<close>. At run time a kind is one of these
  strings; the table \<open>evtTypeStrings\<close> below keeps the spelling.
\<close>

datatype EvtType =
  press | release | release_none | enter | exit | move_inside | any | nevermatch

definition evtTypeStrings :: "(string \<times> EvtType) list" where
  "evtTypeStrings =
     [(''press'', press), (''release'', release), (''release_none'', release_none),
      (''enter'', enter), (''exit'', exit), (''move_inside'', move_inside),
      (''any'', any), (''nevermatch'', nevermatch)]"

text \<open>
  A region is a \<^verbatim>\<open>Region\<close> object, held by reference. Region.ts is not among the
  sources, so the type of regions is a parameter \<open>'r\<close> whose values are the references
  themselves: equality on \<open>'r\<close> is \<^verbatim>\<open>===\<close> on region objects. The \<^verbatim>\<open>name\<close> property of
  a region is read through a function \<open>name_of\<close> passed to \<open>bindRegion\<close>.

  The fields \<^verbatim>\<open>_evtType\<close>, \<^verbatim>\<open>_regionName\<close> and \<^verbatim>\<open>_region\<close> of the class;
  \<open>None\<close> is \<^verbatim>\<open>undefined\<close>.
\<close>

record 'r EventSpec =
  this_evtType :: EvtType
  this_regionName :: string
  this_region :: "'r option"

text \<open>The constructor: \<^verbatim>\<open>_region\<close> starts \<^verbatim>\<open>undefined\<close>.\<close>

definition new_EventSpec :: "EvtType \<Rightarrow> string \<Rightarrow> 'r EventSpec" where
  "new_EventSpec evtTyp regionName =
     \<lparr>this_evtType = evtTyp, this_regionName = regionName, this_region = None\<rparr>"

text \<open>
  Modelled from the spec: \<^verbatim>\<open>Check.limitedString\<close> and \<^verbatim>\<open>Check.stringVal\<close>
  (Check.js is not among the sources). The spec: an unrecognized \<^verbatim>\<open>evtType\<close> string
  is coerced to the given default rather than rejected; a missing or non-string
  \<^verbatim>\<open>region\<close> field is a hard parse error. A field that is missing or not a string is
  \<open>None\<close> here.
\<close>

definition limitedString ::
  "string \<Rightarrow> (string \<times> EvtType) list \<Rightarrow> EvtType \<Rightarrow> EvtType" where
  "limitedString v allowed dflt = (case map_of allowed v of Some k \<Rightarrow> k | None \<Rightarrow> dflt)"

definition stringVal :: "string option \<Rightarrow> string \<Rightarrow> string + string" where
  "stringVal v msg = (case v of Some s \<Rightarrow> Inr s | None \<Rightarrow> Inl msg)"

record EventSpec_json =
  json_evtType :: string
  json_region :: "string option"

definition fromJson :: "EventSpec_json \<Rightarrow> string + 'r EventSpec" where
  "fromJson evt =
     (let evtType = limitedString (json_evtType evt) evtTypeStrings nevermatch
      in case stringVal (json_region evt) ''EvtType.fromJson{region:}'' of
           Inl e \<Rightarrow> Inl e
         | Inr region \<Rightarrow> Inr (new_EventSpec evtType region))"

text \<open>
  The loop of \<^verbatim>\<open>bindRegion\<close>: the first region of the list whose name equals the
  wanted one, if any.
\<close>

fun find_region :: "('r \<Rightarrow> string) \<Rightarrow> 'r list \<Rightarrow> string \<Rightarrow> 'r option" where
  "find_region name_of [] regionName = None"
| "find_region name_of (r # rest) regionName =
     (if name_of r = regionName then Some r else find_region name_of rest regionName)"

text \<open>The message handed to \<^verbatim>\<open>Err.emit\<close> by \<^verbatim>\<open>bindRegion\<close>.\<close>

definition no_region_message :: "string \<Rightarrow> string" where
  "no_region_message regionName =
     ''Region '' @ [CHR 0x27] @ regionName @ [CHR 0x27] @
     '' in event specification does not match any region.''"

text \<open>
  \<^verbatim>\<open>bindRegion(regionList)\<close>. The result is the specification afterwards and the
  messages passed to \<^verbatim>\<open>Err.emit\<close> (Err.js is not among the sources; the error channel
  is the list of messages it receives). The \<^verbatim>\<open>nevermatch\<close> branch and the error branch
  return without assigning \<^verbatim>\<open>_region\<close>.
\<close>

definition bindRegion ::
  "('r \<Rightarrow> string) \<Rightarrow> 'r list \<Rightarrow> 'r EventSpec \<Rightarrow> 'r EventSpec \<times> string list" where
  "bindRegion name_of regionList s =
     (if this_regionName s = ''*'' then (s\<lparr>this_region := None\<rparr>, [])
      else case find_region name_of regionList (this_regionName s) of
        Some r \<Rightarrow> (s\<lparr>this_region := Some r\<rparr>, [])
      | None \<Rightarrow>
          if this_evtType s = nevermatch then (s, [])
          else if (this_evtType s = release_none \<or> this_evtType s = any)
                  \<and> this_regionName s = ''''
          then (s\<lparr>this_region := None\<rparr>, [])
          else (s, [no_region_message (this_regionName s)]))"

text \<open>\<^verbatim>\<open>match(evtType, regn)\<close>, branch by branch.\<close>

definition match :: "'r EventSpec \<Rightarrow> EvtType \<Rightarrow> 'r option \<Rightarrow> bool" where
  "match s evtType regn =
     (if this_regionName s = ''*'' \<and> this_region s = None then True
      else if this_evtType s = release_none then evtType = this_evtType s
      else evtType = this_evtType s \<and> regn = this_region s)"

text \<open>
  A concrete region list for the examples: region \<open>0\<close> is named A and region \<open>1\<close> is
  named B.
\<close>

definition demo_name :: "nat \<Rightarrow> string" where
  "demo_name r = (if r = 0 then ''A'' else ''B'')"

section \<open>The interactor (src/FSMInteractor.ts)\<close>

subsection \<open>Numbers, collaborators and outgoing calls\<close>

text \<open>
  Coordinates are JavaScript numbers. The setters only store and compare them, so the
  model keeps a finite value exactly and keeps \<^verbatim>\<open>NaN\<close>, the one value on which
  \<^verbatim>\<open>===\<close> is not reflexive. \<open>strict_eq\<close> is \<^verbatim>\<open>===\<close> and \<open>strict_neq\<close> is \<^verbatim>\<open>!==\<close>.
\<close>

datatype number = NaN | Num real

fun strict_eq :: "number \<Rightarrow> number \<Rightarrow> bool" where
  "strict_eq (Num a) (Num b) = (a = b)"
| "strict_eq _ _ = False"

definition strict_neq :: "number \<Rightarrow> number \<Rightarrow> bool" where
  "strict_neq a b = (\<not> strict_eq a b)"

text \<open>A \<^verbatim>\<open>Root\<close> object (the hosting surface), held by reference.\<close>

type_synonym root = nat

text \<open>
  FSM.ts and Region.ts are not among the sources. The FSM object, with everything it
  owns, is a value of a parameter type \<open>'f\<close>, and the three operations the interactor
  uses are parameters: the \<^verbatim>\<open>regions\<close> property, the hit test
  \<^verbatim>\<open>Region.pick(localX, localY)\<close> of one of its regions, and \<^verbatim>\<open>actOnEvent\<close>, which
  may change the FSM in any way.
\<close>

record ('f, 'r) collaborators =
  fsm_regions :: "'f \<Rightarrow> 'r list"
  region_pick :: "'f \<Rightarrow> 'r \<Rightarrow> number \<Rightarrow> number \<Rightarrow> bool"
  fsm_actOnEvent :: "'f \<Rightarrow> EvtType \<Rightarrow> 'r option \<Rightarrow> 'f"

text \<open>
  The calls an operation makes on its collaborators, in the order it makes them:
  \<^verbatim>\<open>fsm.actOnEvent(kind, region?)\<close>, \<^verbatim>\<open>parent.damage()\<close> and \<^verbatim>\<open>Err.emit(message)\<close>.
\<close>

datatype 'r call =
  ActOnEvent EvtType "'r option" | RootDamage root | ErrEmit string

text \<open>
  The fields \<^verbatim>\<open>_fsm\<close>, \<^verbatim>\<open>_x\<close>, \<^verbatim>\<open>_y\<close>, \<^verbatim>\<open>_parent\<close> and \<^verbatim>\<open>_visited\<close> of the class.
  Every operation that changes the object returns the object afterwards and the calls
  it made.
\<close>

record ('f, 'r) FSMInteractor =
  this_fsm :: "'f option"
  this_x :: number
  this_y :: number
  this_parent :: "root option"
  this_visited :: "'r list"

text \<open>
  The constructor. Its back link \<^verbatim>\<open>fsm.parent = this\<close> is a field of the FSM object
  and stays inside \<open>'f\<close>.
\<close>

definition new_FSMInteractor ::
  "'f option \<Rightarrow> number \<Rightarrow> number \<Rightarrow> root option \<Rightarrow> ('f, 'r) FSMInteractor" where
  "new_FSMInteractor fsm x y parent =
     \<lparr>this_fsm = fsm, this_x = x, this_y = y, this_parent = parent, this_visited = []\<rparr>"

subsection \<open>Position, parent and damage\<close>

text \<open>\<^verbatim>\<open>damage()\<close>: \<^verbatim>\<open>this.parent?.damage()\<close>.\<close>

definition damage :: "('f, 'r) FSMInteractor \<Rightarrow> 'r call list" where
  "damage i = (case this_parent i of None \<Rightarrow> [] | Some p \<Rightarrow> [RootDamage p])"

definition set_x ::
  "number \<Rightarrow> ('f, 'r) FSMInteractor \<Rightarrow> ('f, 'r) FSMInteractor \<times> 'r call list" where
  "set_x v i =
     (if \<not> strict_eq (this_x i) v
      then (i\<lparr>this_x := v\<rparr>, damage (i\<lparr>this_x := v\<rparr>))
      else (i, []))"

definition set_y ::
  "number \<Rightarrow> ('f, 'r) FSMInteractor \<Rightarrow> ('f, 'r) FSMInteractor \<times> 'r call list" where
  "set_y v i =
     (if \<not> strict_eq (this_y i) v
      then (i\<lparr>this_y := v\<rparr>, damage (i\<lparr>this_y := v\<rparr>))
      else (i, []))"

record position =
  pos_x :: number
  pos_y :: number

definition get_position :: "('f, 'r) FSMInteractor \<Rightarrow> position" where
  "get_position i = \<lparr>pos_x = this_x i, pos_y = this_y i\<rparr>"

text \<open>
  The position setter. Its last statement is \<^verbatim>\<open>this.parent?.damage;\<close>, which reads
  the method of the parent and does not call it: no call is made.
\<close>

definition set_position ::
  "position \<Rightarrow> ('f, 'r) FSMInteractor \<Rightarrow> ('f, 'r) FSMInteractor \<times> 'r call list" where
  "set_position v i =
     (if strict_neq (pos_x v) (this_x i) \<or> strict_neq (pos_y v) (this_y i)
      then (i\<lparr>this_x := pos_x v, this_y := pos_y v\<rparr>, [])
      else (i, []))"

text \<open>The parent setter: damage to the old parent, then to the new one.\<close>

definition set_parent ::
  "root option \<Rightarrow> ('f, 'r) FSMInteractor \<Rightarrow> ('f, 'r) FSMInteractor \<times> 'r call list" where
  "set_parent v i =
     (if \<not> (this_parent i = v)
      then (i\<lparr>this_parent := v\<rparr>, damage i @ damage (i\<lparr>this_parent := v\<rparr>))
      else (i, []))"

subsection \<open>Picking and the visited list\<close>

text \<open>
  The four collecting loops of the class have one shape: walk an array from index 0
  and push every element that passes a test.
\<close>

fun push_each :: "('a \<Rightarrow> bool) \<Rightarrow> 'a list \<Rightarrow> 'a list \<Rightarrow> 'a list" where
  "push_each test [] out = out"
| "push_each test (e # rest) out =
     push_each test rest (if test e then out @ [e] else out)"

text \<open>\<^verbatim>\<open>Array.prototype.includes\<close> on an array of object references.\<close>

fun array_includes :: "'a list \<Rightarrow> 'a \<Rightarrow> bool" where
  "array_includes [] e = False"
| "array_includes (y # ys) e = (y = e \<or> array_includes ys e)"

definition pick ::
  "('f, 'r) collaborators \<Rightarrow> ('f, 'r) FSMInteractor \<Rightarrow> number \<Rightarrow> number \<Rightarrow> 'r list" where
  "pick c i localX localY =
     (case this_fsm i of
        None \<Rightarrow> []
      | Some f \<Rightarrow>
          rev (push_each (\<lambda>r. region_pick c f r localX localY) (fsm_regions c f) []))"

definition all_exit :: "('f, 'r) FSMInteractor \<Rightarrow> 'r list \<Rightarrow> 'r list" where
  "all_exit i v = push_each (\<lambda>e. \<not> array_includes v e) (this_visited i) []"

definition all_enter :: "('f, 'r) FSMInteractor \<Rightarrow> 'r list \<Rightarrow> 'r list" where
  "all_enter i v = push_each (\<lambda>e. \<not> array_includes (this_visited i) e) v []"

definition all_move_inside :: "('f, 'r) FSMInteractor \<Rightarrow> 'r list \<Rightarrow> 'r list" where
  "all_move_inside i v = push_each (\<lambda>e. array_includes (this_visited i) e) v []"

subsection \<open>Dispatch\<close>

text \<open>
  One call of \<^verbatim>\<open>actOnEvent\<close>: the FSM changes as \<open>fsm_actOnEvent\<close> says and the call
  is appended to the calls made so far. \<open>forEach_actOnEvent\<close> is
  \<^verbatim>\<open>list.forEach(element => this.fsm?.actOnEvent(kind, element))\<close>.
\<close>

definition deliver ::
  "('f, 'r) collaborators \<Rightarrow> EvtType \<Rightarrow> 'r option \<Rightarrow> 'f \<times> 'r call list \<Rightarrow> 'f \<times> 'r call list" where
  "deliver c k regn s = (fsm_actOnEvent c (fst s) k regn, snd s @ [ActOnEvent k regn])"

fun forEach_actOnEvent ::
  "('f, 'r) collaborators \<Rightarrow> EvtType \<Rightarrow> 'r list \<Rightarrow> 'f \<times> 'r call list \<Rightarrow> 'f \<times> 'r call list" where
  "forEach_actOnEvent c k [] s = s"
| "forEach_actOnEvent c k (element # rest) s =
     forEach_actOnEvent c k rest (deliver c k (Some element) s)"

text \<open>The raw kinds \<^verbatim>\<open>'press' | 'move' | 'release'\<close>.\<close>

datatype RawEvt = raw_press | raw_move | raw_release

text \<open>
  \<^verbatim>\<open>dispatchRawEvent(what, localX, localY)\<close>. The \<^verbatim>\<open>default\<close> branch of the switch is
  the one a release takes.
\<close>

definition dispatchRawEvent ::
  "('f, 'r) collaborators \<Rightarrow> RawEvt \<Rightarrow> number \<Rightarrow> number \<Rightarrow> ('f, 'r) FSMInteractor
     \<Rightarrow> ('f, 'r) FSMInteractor \<times> 'r call list" where
  "dispatchRawEvent c what localX localY i =
     (case this_fsm i of
        None \<Rightarrow> (i, [])
      | Some f \<Rightarrow>
          let regions = pick c i localX localY;
              exits = all_exit i regions;
              s1 = forEach_actOnEvent c exit exits (f, []);
              enters = all_enter i regions;
              s2 = forEach_actOnEvent c enter enters s1;
              s3 = (case what of
                      raw_press \<Rightarrow> forEach_actOnEvent c press regions s2
                    | raw_move \<Rightarrow>
                        let move_insides = all_move_inside i regions
                        in forEach_actOnEvent c move_inside move_insides s2
                    | raw_release \<Rightarrow>
                        if length regions = 0 then deliver c release_none None s2
                        else forEach_actOnEvent c release regions s2)
          in (i\<lparr>this_fsm := Some (fst s3), this_visited := regions\<rparr>, snd s3))"

subsection \<open>Loading\<close>

text \<open>
  \<^verbatim>\<open>startLoadFromJson(jsonLoc)\<close> runs to one of two ends, decided outside the class:
  the fetch fails, or \<^verbatim>\<open>FSM.fromJson\<close> returns a new FSM.
\<close>

datatype 'f load_outcome = LoadFailed | Loaded 'f

definition load_failed_message :: "string \<Rightarrow> string" where
  "load_failed_message jsonLoc =
     ''Load of FSM from '' @ [CHR 0x22] @ jsonLoc @ [CHR 0x22] @ '' failed''"

definition startLoadFromJson ::
  "string \<Rightarrow> 'f load_outcome \<Rightarrow> ('f, 'r) FSMInteractor
     \<Rightarrow> ('f, 'r) FSMInteractor \<times> 'r call list" where
  "startLoadFromJson jsonLoc outcome i =
     (case outcome of
        LoadFailed \<Rightarrow> (i\<lparr>this_fsm := None\<rparr>, [ErrEmit (load_failed_message jsonLoc)])
      | Loaded f \<Rightarrow> (i\<lparr>this_fsm := Some f\<rparr>, damage (i\<lparr>this_fsm := Some f\<rparr>)))"

subsection \<open>The translation as the specification words it\<close>

text \<open>
  Section 4.3 of the specification: exits are the regions of the visited list that are
  not picked, in the visited list's order; enters are the picked regions that were not
  visited, in the pick list's order; then the events of the raw kind.
\<close>

definition spec_exits :: "'r list \<Rightarrow> 'r list \<Rightarrow> 'r list" where
  "spec_exits visited picked = filter (\<lambda>r. r \<notin> set picked) visited"

definition spec_enters :: "'r list \<Rightarrow> 'r list \<Rightarrow> 'r list" where
  "spec_enters visited picked = filter (\<lambda>r. r \<notin> set visited) picked"

definition spec_stay :: "'r list \<Rightarrow> 'r list \<Rightarrow> 'r list" where
  "spec_stay visited picked = filter (\<lambda>r. r \<in> set visited \<and> r \<in> set picked) picked"

definition events :: "EvtType \<Rightarrow> 'r list \<Rightarrow> 'r call list" where
  "events k rs = map (\<lambda>r. ActOnEvent k (Some r)) rs"

definition spec_action :: "RawEvt \<Rightarrow> 'r list \<Rightarrow> 'r list \<Rightarrow> 'r call list" where
  "spec_action what visited picked =
     (case what of
        raw_press \<Rightarrow> events press picked
      | raw_move \<Rightarrow> events move_inside (spec_stay visited picked)
      | raw_release \<Rightarrow>
          if picked = [] then [ActOnEvent release_none None] else events release picked)"

text \<open>The calls of one kind among the calls made, in their order.\<close>

fun is_event :: "EvtType \<Rightarrow> 'r call \<Rightarrow> bool" where
  "is_event k (ActOnEvent k' regn) = (k' = k)"
| "is_event k _ = False"

definition events_of_kind :: "EvtType \<Rightarrow> 'r call list \<Rightarrow> 'r call list" where
  "events_of_kind k calls = filter (is_event k) calls"

text \<open>What the FSM becomes when it receives a list of calls in order.\<close>

fun receive :: "('f, 'r) collaborators \<Rightarrow> 'f \<Rightarrow> 'r call \<Rightarrow> 'f" where
  "receive c f (ActOnEvent k regn) = fsm_actOnEvent c f k regn"
| "receive c f _ = f"

subsection \<open>A concrete interactor\<close>

text \<open>
  Two regions: A (reference \<open>0\<close>, drawn first) covers the square from 0 to 10, B
  (reference \<open>1\<close>, drawn second) the square from 3 to 20. The FSM of the example keeps
  the list of events it has received. The interactor sits at the origin on root \<open>7\<close>.
\<close>

fun in_box :: "real \<Rightarrow> real \<Rightarrow> number \<Rightarrow> number \<Rightarrow> bool" where
  "in_box lo hi (Num a) (Num b) = (lo \<le> a \<and> a \<le> hi \<and> lo \<le> b \<and> b \<le> hi)"
| "in_box lo hi _ _ = False"

type_synonym demo_fsm = "(EvtType \<times> nat option) list"

definition demo_collab :: "(demo_fsm, nat) collaborators" where
  "demo_collab =
     \<lparr>fsm_regions = (\<lambda>f. [0, 1]),
      region_pick = (\<lambda>f r lx ly. if r = 0 then in_box 0 10 lx ly else in_box 3 20 lx ly),
      fsm_actOnEvent = (\<lambda>f k regn. f @ [(k, regn)])\<rparr>"

definition demo_interactor :: "(demo_fsm, nat) FSMInteractor" where
  "demo_interactor = new_FSMInteractor (Some []) (Num 0) (Num 0) (Some 7)"

text \<open>
  Three states of a run: after a press at (1, 1), over A only; after a press at (5, 5),
  over both; and the latter after a load that failed.
\<close>

definition demo_over_A :: "(demo_fsm, nat) FSMInteractor" where
  "demo_over_A = fst (dispatchRawEvent demo_collab raw_press (Num 1) (Num 1) demo_interactor)"

definition demo_pressed :: "(demo_fsm, nat) FSMInteractor" where
  "demo_pressed = fst (dispatchRawEvent demo_collab raw_press (Num 5) (Num 5) demo_interactor)"

definition demo_unloaded :: "(demo_fsm, nat) FSMInteractor" where
  "demo_unloaded = fst (startLoadFromJson ''fsm.json'' LoadFailed demo_pressed)"

section \<open>Event specifications: binding\<close>

lemma find_region_None:
  "find_region name_of regionList n = None \<longleftrightarrow> n \<notin> name_of ` set regionList"
  by (induction regionList) auto

text \<open>
  C6. For a region list with no region named as the specification asks, and a name
  other than the wildcard: binding a fresh specification of kind press leaves it as it
  was and sends exactly the configuration error to the error channel, while binding a
  fresh specification of kind nevermatch sends nothing and leaves no region bound.
\<close>

theorem bindRegion_absent_press_nevermatch:
  assumes "n \<noteq> ''*''" and "n \<notin> name_of ` set regionList"
  shows "bindRegion name_of regionList (new_EventSpec press n)
           = (new_EventSpec press n, [no_region_message n])
       \<and> bindRegion name_of regionList (new_EventSpec nevermatch n)
           = (new_EventSpec nevermatch n, [])
       \<and> this_region (fst (bindRegion name_of regionList (new_EventSpec nevermatch n)))
           = None"
proof -
  have absent: "find_region name_of regionList n = None"
    using assms(2) by (simp add: find_region_None)
  show ?thesis
    using assms(1) absent by (simp add: bindRegion_def new_EventSpec_def)
qed

theorem bindRegion_absent_press_nevermatch_witness:
  "bindRegion demo_name [0, 1] (new_EventSpec press ''C'')
     = (new_EventSpec press ''C'', [no_region_message ''C''])
   \<and> bindRegion demo_name [0, 1] (new_EventSpec nevermatch ''C'')
     = (new_EventSpec nevermatch ''C'', [])
   \<and> this_region (fst (bindRegion demo_name [0, 1] (new_EventSpec nevermatch ''C'')))
     = (None :: nat option)"
proof -
  have a: "''C'' \<noteq> ''*''" by simp
  have b: "''C'' \<notin> demo_name ` set [0, 1]" by (simp add: demo_name_def)
  show ?thesis
    by (rule bindRegion_absent_press_nevermatch [OF a b])
qed

section \<open>Dispatch: the calls made\<close>

lemma push_each_filter: "push_each test xs out = out @ filter test xs"
  by (induction xs arbitrary: out) auto

lemma array_includes_set: "array_includes xs e \<longleftrightarrow> e \<in> set xs"
  by (induction xs) auto

lemma forEach_calls: "snd (forEach_actOnEvent c k xs s) = snd s @ events k xs"
  by (induction xs arbitrary: s) (auto simp: deliver_def events_def)

lemma forEach_fsm:
  "fst (forEach_actOnEvent c k xs s) = foldl (receive c) (fst s) (events k xs)"
  by (induction xs arbitrary: s) (auto simp: deliver_def events_def)

lemma all_exit_spec: "all_exit i v = spec_exits (this_visited i) v"
  by (simp add: all_exit_def spec_exits_def push_each_filter array_includes_set)

lemma all_enter_spec: "all_enter i v = spec_enters (this_visited i) v"
  by (simp add: all_enter_def spec_enters_def push_each_filter array_includes_set)

lemma all_move_inside_spec: "all_move_inside i v = spec_stay (this_visited i) v"
  by (auto simp: all_move_inside_def spec_stay_def push_each_filter array_includes_set
      intro: filter_cong)

lemma pick_attached:
  "this_fsm i = Some f \<Longrightarrow>
   pick c i lx ly = rev (filter (\<lambda>r. region_pick c f r lx ly) (fsm_regions c f))"
  by (simp add: pick_def push_each_filter)

lemma dispatch_calls:
  assumes "this_fsm i = Some f"
  shows "snd (dispatchRawEvent c what lx ly i)
     = events exit (spec_exits (this_visited i) (pick c i lx ly))
       @ events enter (spec_enters (this_visited i) (pick c i lx ly))
       @ spec_action what (this_visited i) (pick c i lx ly)"
  using assms
  by (cases what)
     (simp_all add: dispatchRawEvent_def Let_def forEach_calls all_exit_spec all_enter_spec
        all_move_inside_spec spec_action_def deliver_def)

lemma dispatch_fsm:
  assumes "this_fsm i = Some f"
  shows "this_fsm (fst (dispatchRawEvent c what lx ly i))
     = Some (foldl (receive c) f (snd (dispatchRawEvent c what lx ly i)))"
  using assms
  by (cases what)
     (simp_all add: dispatchRawEvent_def Let_def forEach_calls forEach_fsm deliver_def)

lemma dispatch_visited:
  assumes "this_fsm i = Some f"
  shows "this_visited (fst (dispatchRawEvent c what lx ly i)) = pick c i lx ly"
  using assms by (simp add: dispatchRawEvent_def Let_def)

lemma events_of_kind_append:
  "events_of_kind k (xs @ ys) = events_of_kind k xs @ events_of_kind k ys"
  by (simp add: events_of_kind_def)

lemma events_of_kind_events:
  "events_of_kind k (events k' rs) = (if k' = k then events k' rs else [])"
  by (induction rs) (auto simp: events_of_kind_def events_def)

lemma mem_events: "ActOnEvent k (Some r) \<in> set (events k' rs) \<longleftrightarrow> k = k' \<and> r \<in> set rs"
  by (auto simp: events_def)

subsection \<open>Concrete runs\<close>

lemma demo_over_A_eq:
  "demo_over_A =
     \<lparr>this_fsm = Some [(enter, Some 0), (press, Some 0)], this_x = Num 0, this_y = Num 0,
      this_parent = Some 7, this_visited = [0]\<rparr>"
  by (simp add: demo_over_A_def demo_collab_def demo_interactor_def new_FSMInteractor_def
      dispatchRawEvent_def pick_def all_exit_def all_enter_def deliver_def)

lemma demo_pressed_eq:
  "demo_pressed =
     \<lparr>this_fsm = Some [(enter, Some 1), (enter, Some 0), (press, Some 1), (press, Some 0)],
      this_x = Num 0, this_y = Num 0, this_parent = Some 7, this_visited = [1, 0]\<rparr>"
  by (simp add: demo_pressed_def demo_collab_def demo_interactor_def new_FSMInteractor_def
      dispatchRawEvent_def pick_def all_exit_def all_enter_def deliver_def)

lemma demo_unloaded_eq:
  "demo_unloaded =
     \<lparr>this_fsm = None, this_x = Num 0, this_y = Num 0, this_parent = Some 7,
      this_visited = [1, 0]\<rparr>"
  by (simp add: demo_unloaded_def demo_pressed_eq startLoadFromJson_def)

lemma actOnEvent_demo: "fsm_actOnEvent demo_collab f k regn = f @ [(k, regn)]"
  by (simp add: demo_collab_def)

lemma pick_over_A: "pick demo_collab demo_over_A lx ly
    = rev (filter (\<lambda>r. if r = 0 then in_box 0 10 lx ly else in_box 3 20 lx ly) [0, 1])"
  by (simp add: demo_over_A_eq demo_collab_def pick_def)

lemma pick_pressed: "pick demo_collab demo_pressed lx ly
    = rev (filter (\<lambda>r. if r = 0 then in_box 0 10 lx ly else in_box 3 20 lx ly) [0, 1])"
  by (simp add: demo_pressed_eq demo_collab_def pick_def)

text \<open>
  C1. With an FSM attached, the calls a dispatch makes are exactly: an exit for each
  visited region that is not picked, in the visited list's order; then an enter for each
  picked region that was not visited, in the pick list's order; then the events of the
  raw kind as section 4.3 lists them. Nothing else is called, and the FSM afterwards is
  the FSM that received these calls in this order.
\<close>

theorem dispatchRawEvent_order:
  assumes "this_fsm i = Some f"
  shows "snd (dispatchRawEvent c what lx ly i)
           = events exit (spec_exits (this_visited i) (pick c i lx ly))
             @ events enter (spec_enters (this_visited i) (pick c i lx ly))
             @ spec_action what (this_visited i) (pick c i lx ly)
       \<and> this_fsm (fst (dispatchRawEvent c what lx ly i))
           = Some (foldl (receive c) f (snd (dispatchRawEvent c what lx ly i)))"
  using dispatch_calls [OF assms] dispatch_fsm [OF assms] by simp

theorem dispatchRawEvent_order_witness:
  "this_fsm demo_over_A = Some [(enter, Some 0), (press, Some 0)]
   \<and> snd (dispatchRawEvent demo_collab raw_press (Num 15) (Num 15) demo_over_A)
       = [ActOnEvent exit (Some 0), ActOnEvent enter (Some 1), ActOnEvent press (Some 1)]
   \<and> this_fsm (fst (dispatchRawEvent demo_collab raw_press (Num 15) (Num 15) demo_over_A))
       = Some [(enter, Some 0), (press, Some 0), (exit, Some 0), (enter, Some 1),
               (press, Some 1)]"
proof -
  have attached: "this_fsm demo_over_A = Some [(enter, Some 0), (press, Some 0)]"
    by (simp add: demo_over_A_eq)
  have visited: "this_visited demo_over_A = [0]"
    by (simp add: demo_over_A_eq)
  have picked: "pick demo_collab demo_over_A (Num 15) (Num 15) = [1]"
    by (simp add: pick_over_A)
  note run = dispatchRawEvent_order [OF attached, of demo_collab raw_press "Num 15" "Num 15"]
  have calls: "snd (dispatchRawEvent demo_collab raw_press (Num 15) (Num 15) demo_over_A)
       = [ActOnEvent exit (Some 0), ActOnEvent enter (Some 1), ActOnEvent press (Some 1)]"
    using run by (simp add: visited picked spec_exits_def spec_enters_def spec_action_def
        events_def)
  have "this_fsm (fst (dispatchRawEvent demo_collab raw_press (Num 15) (Num 15) demo_over_A))
       = Some [(enter, Some 0), (press, Some 0), (exit, Some 0), (enter, Some 1),
               (press, Some 1)]"
    using run by (simp add: calls actOnEvent_demo)
  with attached calls show ?thesis by simp
qed

text \<open>
  C2. With an FSM attached and raw kind release: if the pick list is empty, the calls
  hold exactly one \<open>release_none\<close>, carrying no region, and no \<open>release\<close>; otherwise
  they hold one \<open>release\<close> for every picked region, in the pick list's order, and no
  \<open>release_none\<close>.
\<close>

theorem dispatchRawEvent_release:
  assumes "this_fsm i = Some f"
  shows "if pick c i lx ly = []
         then events_of_kind release_none (snd (dispatchRawEvent c raw_release lx ly i))
                = [ActOnEvent release_none None]
            \<and> events_of_kind release (snd (dispatchRawEvent c raw_release lx ly i)) = []
         else events_of_kind release (snd (dispatchRawEvent c raw_release lx ly i))
                = events release (pick c i lx ly)
            \<and> events_of_kind release_none (snd (dispatchRawEvent c raw_release lx ly i))
                = []"
proof -
  have none: "events_of_kind k [ActOnEvent release_none (None :: 'b option)]
      = (if k = release_none then [ActOnEvent release_none None] else [])" for k
    by (simp add: events_of_kind_def)
  show ?thesis
    by (simp add: dispatch_calls [OF assms] spec_action_def events_of_kind_append
        events_of_kind_events none)
qed

theorem dispatchRawEvent_release_witness:
  "pick demo_collab demo_pressed (Num 50) (Num 50) = []
   \<and> events_of_kind release_none
       (snd (dispatchRawEvent demo_collab raw_release (Num 50) (Num 50) demo_pressed))
       = [ActOnEvent release_none None]
   \<and> events_of_kind release
       (snd (dispatchRawEvent demo_collab raw_release (Num 50) (Num 50) demo_pressed)) = []
   \<and> pick demo_collab demo_pressed (Num 5) (Num 5) = [1, 0]
   \<and> events_of_kind release
       (snd (dispatchRawEvent demo_collab raw_release (Num 5) (Num 5) demo_pressed))
       = [ActOnEvent release (Some 1), ActOnEvent release (Some 0)]
   \<and> events_of_kind release_none
       (snd (dispatchRawEvent demo_collab raw_release (Num 5) (Num 5) demo_pressed)) = []"
proof -
  have attached: "this_fsm demo_pressed
      = Some [(enter, Some 1), (enter, Some 0), (press, Some 1), (press, Some 0)]"
    by (simp add: demo_pressed_eq)
  have far: "pick demo_collab demo_pressed (Num 50) (Num 50) = []"
    by (simp add: pick_pressed)
  have near: "pick demo_collab demo_pressed (Num 5) (Num 5) = [1, 0]"
    by (simp add: pick_pressed)
  show ?thesis
    using dispatchRawEvent_release [OF attached, of demo_collab "Num 50" "Num 50"]
      dispatchRawEvent_release [OF attached, of demo_collab "Num 5" "Num 5"]
    by (simp add: far near events_def)
qed

text \<open>
  C5. With an FSM attached and raw kind move, the \<open>move_inside\<close> calls are exactly one
  for each picked region that is also in the visited list, in the pick list's order; a
  region that receives \<open>move_inside\<close> is neither among the enters nor among the exits
  of that dispatch.
\<close>

theorem dispatchRawEvent_move_inside:
  assumes "this_fsm i = Some f"
  shows "events_of_kind move_inside (snd (dispatchRawEvent c raw_move lx ly i))
           = events move_inside (spec_stay (this_visited i) (pick c i lx ly))
       \<and> (\<forall>r. ActOnEvent move_inside (Some r) \<in> set (snd (dispatchRawEvent c raw_move lx ly i))
              \<longrightarrow> r \<in> set (this_visited i) \<and> r \<in> set (pick c i lx ly)
                \<and> r \<notin> set (all_enter i (pick c i lx ly))
                \<and> r \<notin> set (all_exit i (pick c i lx ly)))"
proof -
  have kinds: "events_of_kind move_inside (snd (dispatchRawEvent c raw_move lx ly i))
      = events move_inside (spec_stay (this_visited i) (pick c i lx ly))"
    by (simp add: dispatch_calls [OF assms] spec_action_def events_of_kind_append
        events_of_kind_events)
  have members: "ActOnEvent move_inside (Some r) \<in> set (snd (dispatchRawEvent c raw_move lx ly i))
      \<longleftrightarrow> r \<in> set (spec_stay (this_visited i) (pick c i lx ly))" for r
    by (simp add: dispatch_calls [OF assms] spec_action_def mem_events)
  show ?thesis
    using kinds members
    by (auto simp: spec_stay_def all_enter_spec all_exit_spec spec_enters_def spec_exits_def)
qed

theorem dispatchRawEvent_move_inside_witness:
  "this_visited demo_over_A = [0]
   \<and> pick demo_collab demo_over_A (Num 5) (Num 5) = [1, 0]
   \<and> events_of_kind move_inside
       (snd (dispatchRawEvent demo_collab raw_move (Num 5) (Num 5) demo_over_A))
       = [ActOnEvent move_inside (Some 0)]
   \<and> ActOnEvent move_inside (Some 0)
       \<in> set (snd (dispatchRawEvent demo_collab raw_move (Num 5) (Num 5) demo_over_A))
   \<and> 0 \<notin> set (all_enter demo_over_A (pick demo_collab demo_over_A (Num 5) (Num 5)))
   \<and> 0 \<notin> set (all_exit demo_over_A (pick demo_collab demo_over_A (Num 5) (Num 5)))"
proof -
  have attached: "this_fsm demo_over_A = Some [(enter, Some 0), (press, Some 0)]"
    by (simp add: demo_over_A_eq)
  have visited: "this_visited demo_over_A = [0]"
    by (simp add: demo_over_A_eq)
  have picked: "pick demo_collab demo_over_A (Num 5) (Num 5) = [1, 0]"
    by (simp add: pick_over_A)
  note run = dispatchRawEvent_move_inside [OF attached, of demo_collab "Num 5" "Num 5"]
  have kinds: "events_of_kind move_inside
       (snd (dispatchRawEvent demo_collab raw_move (Num 5) (Num 5) demo_over_A))
       = [ActOnEvent move_inside (Some 0)]"
    using run by (simp add: visited picked spec_stay_def events_def)
  then have "ActOnEvent move_inside (Some 0)
       \<in> set (events_of_kind move_inside
           (snd (dispatchRawEvent demo_collab raw_move (Num 5) (Num 5) demo_over_A)))"
    by simp
  then have member: "ActOnEvent move_inside (Some 0)
       \<in> set (snd (dispatchRawEvent demo_collab raw_move (Num 5) (Num 5) demo_over_A))"
    by (simp add: events_of_kind_def)
  from run member
  have "0 \<notin> set (all_enter demo_over_A (pick demo_collab demo_over_A (Num 5) (Num 5)))
      \<and> 0 \<notin> set (all_exit demo_over_A (pick demo_collab demo_over_A (Num 5) (Num 5)))"
    by blast
  with visited picked kinds member show ?thesis by simp
qed

text \<open>
  C8. With no FSM attached, a dispatch of any raw kind at any point returns the
  interactor as it was and makes no call, and \<open>pick\<close> returns the empty list.
\<close>

theorem dispatchRawEvent_no_fsm:
  assumes "this_fsm i = None"
  shows "dispatchRawEvent c what lx ly i = (i, []) \<and> pick c i lx ly = []"
  using assms by (simp add: dispatchRawEvent_def pick_def)

theorem dispatchRawEvent_no_fsm_witness:
  "this_fsm demo_unloaded = None
   \<and> dispatchRawEvent demo_collab raw_press (Num 5) (Num 5) demo_unloaded
       = (demo_unloaded, [])
   \<and> pick demo_collab demo_unloaded (Num 5) (Num 5) = []"
proof -
  have detached: "this_fsm demo_unloaded = None"
    by (simp add: demo_unloaded_eq)
  show ?thesis
    using detached dispatchRawEvent_no_fsm [OF detached, of demo_collab raw_press "Num 5" "Num 5"]
    by simp
qed

section \<open>The visited list\<close>

text \<open>
  C7, as the code has it. The visited list is empty at construction. A dispatch made
  while an FSM is attached leaves it equal to the pick list of that call, whatever the
  raw kind; a dispatch made while no FSM is attached leaves it as it was. The setters
  of x, y, position and parent and both ends of a load leave it as it was.
\<close>

theorem visited_lifecycle:
  "this_visited (new_FSMInteractor fsm x y parent) = []
   \<and> (this_fsm i = Some f \<longrightarrow>
        this_visited (fst (dispatchRawEvent c what lx ly i)) = pick c i lx ly)
   \<and> (this_fsm i = None \<longrightarrow>
        this_visited (fst (dispatchRawEvent c what lx ly i)) = this_visited i)
   \<and> this_visited (fst (set_x v i)) = this_visited i
   \<and> this_visited (fst (set_y v i)) = this_visited i
   \<and> this_visited (fst (set_position p i)) = this_visited i
   \<and> this_visited (fst (set_parent q i)) = this_visited i
   \<and> this_visited (fst (startLoadFromJson jsonLoc outcome i)) = this_visited i"
proof -
  have "this_visited (fst (startLoadFromJson jsonLoc outcome i)) = this_visited i"
    by (cases outcome) (simp_all add: startLoadFromJson_def)
  moreover have "this_fsm i = None \<longrightarrow>
      this_visited (fst (dispatchRawEvent c what lx ly i)) = this_visited i"
    by (simp add: dispatchRawEvent_def)
  ultimately show ?thesis
    by (simp add: new_FSMInteractor_def dispatch_visited set_x_def set_y_def
        set_position_def set_parent_def)
qed

theorem visited_lifecycle_witness:
  "this_visited (new_FSMInteractor (Some ([] :: demo_fsm)) (Num 0) (Num 0) (Some 7))
     = ([] :: nat list)
   \<and> this_fsm demo_over_A = Some [(enter, Some 0), (press, Some 0)]
   \<and> pick demo_collab demo_over_A (Num 5) (Num 5) = [1, 0]
   \<and> this_visited (fst (dispatchRawEvent demo_collab raw_move (Num 5) (Num 5) demo_over_A))
     = [1, 0]
   \<and> this_fsm demo_unloaded = None
   \<and> this_visited (fst (dispatchRawEvent demo_collab raw_move (Num 5) (Num 5) demo_unloaded))
     = [1, 0]
   \<and> this_visited (fst (set_x (Num 4) demo_pressed)) = [1, 0]
   \<and> this_visited (fst (set_y (Num 4) demo_pressed)) = [1, 0]
   \<and> this_visited (fst (set_position \<lparr>pos_x = Num 4, pos_y = Num 4\<rparr> demo_pressed)) = [1, 0]
   \<and> this_visited (fst (set_parent None demo_pressed)) = [1, 0]
   \<and> this_visited (fst (startLoadFromJson ''fsm.json'' (Loaded []) demo_pressed)) = [1, 0]"
proof -
  have attached: "this_fsm demo_over_A = Some [(enter, Some 0), (press, Some 0)]"
    by (simp add: demo_over_A_eq)
  have picked: "pick demo_collab demo_over_A (Num 5) (Num 5) = [1, 0]"
    by (simp add: pick_over_A)
  have detached: "this_fsm demo_unloaded = None"
    by (simp add: demo_unloaded_eq)
  have kept: "this_visited demo_unloaded = [1, 0]"
    by (simp add: demo_unloaded_eq)
  have pressed: "this_visited demo_pressed = [1, 0]"
    by (simp add: demo_pressed_eq)
  note a = visited_lifecycle [of "Some ([] :: demo_fsm)" "Num 0" "Num 0" "Some 7"
      demo_over_A "[(enter, Some 0), (press, Some 0)]" demo_collab raw_move "Num 5" "Num 5"
      "Num 4" "\<lparr>pos_x = Num 4, pos_y = Num 4\<rparr>" None "''fsm.json''" "Loaded []"]
  note b = visited_lifecycle [of None "Num 0" "Num 0" None
      demo_unloaded "[]" demo_collab raw_move "Num 5" "Num 5"
      "Num 4" "\<lparr>pos_x = Num 4, pos_y = Num 4\<rparr>" None "''fsm.json''" "Loaded []"]
  note d = visited_lifecycle [of None "Num 0" "Num 0" None
      demo_pressed "[]" demo_collab raw_move "Num 5" "Num 5"
      "Num 4" "\<lparr>pos_x = Num 4, pos_y = Num 4\<rparr>" None "''fsm.json''" "Loaded []"]
  have first: "this_visited (new_FSMInteractor (Some ([] :: demo_fsm)) (Num 0) (Num 0) (Some 7))
     = ([] :: nat list)"
    using a by blast
  have second: "this_visited
      (fst (dispatchRawEvent demo_collab raw_move (Num 5) (Num 5) demo_over_A)) = [1, 0]"
  proof -
    from a attached
    have "this_visited (fst (dispatchRawEvent demo_collab raw_move (Num 5) (Num 5) demo_over_A))
        = pick demo_collab demo_over_A (Num 5) (Num 5)"
      by blast
    then show ?thesis by (simp only: picked)
  qed
  have third: "this_visited
      (fst (dispatchRawEvent demo_collab raw_move (Num 5) (Num 5) demo_unloaded)) = [1, 0]"
  proof -
    from b detached
    have "this_visited (fst (dispatchRawEvent demo_collab raw_move (Num 5) (Num 5) demo_unloaded))
        = this_visited demo_unloaded"
      by blast
    then show ?thesis by (simp only: kept)
  qed
  have rest: "this_visited (fst (set_x (Num 4) demo_pressed)) = [1, 0]
   \<and> this_visited (fst (set_y (Num 4) demo_pressed)) = [1, 0]
   \<and> this_visited (fst (set_position \<lparr>pos_x = Num 4, pos_y = Num 4\<rparr> demo_pressed)) = [1, 0]
   \<and> this_visited (fst (set_parent None demo_pressed)) = [1, 0]
   \<and> this_visited (fst (startLoadFromJson ''fsm.json'' (Loaded []) demo_pressed)) = [1, 0]"
    using d by (simp only: pressed) blast
  from first attached picked second detached third rest show ?thesis by simp
qed

text \<open>
  The claim as the specification words it, replaced on every dispatch by the pick list
  of that call, fails once the FSM is gone: after a press over both regions and a load
  that failed, a release far from every region leaves the visited list as it was,
  while the pick list there is empty.
\<close>

theorem visited_kept_without_fsm:
  "this_visited (fst (dispatchRawEvent demo_collab raw_release (Num 50) (Num 50) demo_unloaded))
     \<noteq> pick demo_collab demo_unloaded (Num 50) (Num 50)
   \<and> this_visited (fst (dispatchRawEvent demo_collab raw_release (Num 50) (Num 50) demo_unloaded))
     = [1, 0]
   \<and> pick demo_collab demo_unloaded (Num 50) (Num 50) = []"
  by (simp add: demo_unloaded_eq dispatchRawEvent_def pick_def)

section \<open>Damage on a change of position\<close>

lemma set_x_changed:
  "strict_neq (this_x i) v \<Longrightarrow> set_x v i = (i\<lparr>this_x := v\<rparr>, damage i)"
  by (simp add: set_x_def strict_neq_def damage_def)

lemma set_y_changed:
  "strict_neq (this_y i) v \<Longrightarrow> set_y v i = (i\<lparr>this_y := v\<rparr>, damage i)"
  by (simp add: set_y_def strict_neq_def damage_def)

lemma set_position_silent: "snd (set_position v i) = []"
  by (simp add: set_position_def)

text \<open>
  C9 at a concrete input. The interactor sits at (0, 0) on root 7. The x setter and the
  y setter, given a new value, store it and call the root's damage once. The position
  setter, given (1, 2), stores both coordinates and calls nothing.
\<close>

theorem set_position_no_damage:
  "set_x (Num 1) demo_interactor = (demo_interactor\<lparr>this_x := Num 1\<rparr>, [RootDamage 7])
   \<and> set_y (Num 2) demo_interactor = (demo_interactor\<lparr>this_y := Num 2\<rparr>, [RootDamage 7])
   \<and> set_position \<lparr>pos_x = Num 1, pos_y = Num 2\<rparr> demo_interactor
       = (demo_interactor\<lparr>this_x := Num 1, this_y := Num 2\<rparr>, [])"
  by (simp add: set_x_def set_y_def set_position_def damage_def strict_neq_def
      demo_interactor_def new_FSMInteractor_def)

section \<open>Event specifications: matching\<close>

lemma match_wildcard:
  "this_regionName s = ''*'' \<Longrightarrow> match (fst (bindRegion name_of regionList s)) k regn"
  by (simp add: match_def bindRegion_def)

text \<open>
  C3 at a concrete input. A specification of kind press with region name \<open>*\<close>, bound
  against the regions A and B, stays of kind press and unbound, and \<open>match\<close> returns
  true for a release on B and for an exit with no region: the kind is not compared.
\<close>

theorem match_wildcard_ignores_kind:
  "this_evtType (fst (bindRegion demo_name [0, 1] (new_EventSpec press ''*''))) = press
   \<and> this_region (fst (bindRegion demo_name [0, 1] (new_EventSpec press ''*''))) = None
   \<and> match (fst (bindRegion demo_name [0, 1] (new_EventSpec press ''*''))) release (Some 1)
   \<and> match (fst (bindRegion demo_name [0, 1] (new_EventSpec press ''*''))) exit None"
  by (simp add: match_def bindRegion_def new_EventSpec_def)

text \<open>
  C4 at concrete inputs. An unrecognized kind string with region name \<open>*\<close> is read as a
  specification of kind nevermatch; after binding, \<open>match\<close> returns true for a press
  on A. A specification of kind nevermatch named A is bound to A and \<open>match\<close> returns
  true for the pair of kind nevermatch and region A.
\<close>

theorem match_nevermatch_fires:
  "fromJson \<lparr>json_evtType = ''bogus'', json_region = Some ''*''\<rparr>
     = Inr (new_EventSpec nevermatch ''*'' :: nat EventSpec)
   \<and> match (fst (bindRegion demo_name [0, 1] (new_EventSpec nevermatch ''*''))) press (Some 0)
   \<and> this_region (fst (bindRegion demo_name [0, 1] (new_EventSpec nevermatch ''A''))) = Some 0
   \<and> match (fst (bindRegion demo_name [0, 1] (new_EventSpec nevermatch ''A'')))
       nevermatch (Some 0)"
  by (simp add: fromJson_def limitedString_def stringVal_def evtTypeStrings_def match_def
      bindRegion_def new_EventSpec_def demo_name_def)

text \<open>
  C10. A fresh specification whose name is not the wildcard and names no region of
  the list, and whose kind is none of the exempt forms: \<open>bindRegion\<close> reports the
  configuration error, the region stays undefined, and \<open>match\<close> returns true for the
  specification's own kind with no region.
\<close>

theorem bindRegion_error_still_matches:
  assumes "this_regionName s \<noteq> ''*''"
    and "this_regionName s \<notin> name_of ` set regionList"
    and "this_evtType s \<noteq> nevermatch"
    and "\<not> ((this_evtType s = release_none \<or> this_evtType s = any) \<and> this_regionName s = '''')"
    and "this_region s = None"
  shows "snd (bindRegion name_of regionList s) = [no_region_message (this_regionName s)]
       \<and> this_region (fst (bindRegion name_of regionList s)) = None
       \<and> match (fst (bindRegion name_of regionList s)) (this_evtType s) None"
proof -
  have absent: "find_region name_of regionList (this_regionName s) = None"
    using assms(2) by (simp add: find_region_None)
  have bound: "bindRegion name_of regionList s = (s, [no_region_message (this_regionName s)])"
    using assms(1,3,4) absent by (auto simp: bindRegion_def)
  show ?thesis
    using assms(1,5) by (simp add: bound match_def)
qed

theorem bindRegion_error_still_matches_witness:
  "snd (bindRegion demo_name [0, 1] (new_EventSpec release ''C''))
     = [no_region_message ''C'']
   \<and> this_region (fst (bindRegion demo_name [0, 1] (new_EventSpec release ''C''))) = None
   \<and> match (fst (bindRegion demo_name [0, 1] (new_EventSpec release ''C''))) release None"
proof -
  let ?s = "new_EventSpec release ''C'' :: nat EventSpec"
  have a: "this_regionName ?s \<noteq> ''*''" by (simp add: new_EventSpec_def)
  have b: "this_regionName ?s \<notin> demo_name ` set [0, 1]"
    by (simp add: new_EventSpec_def demo_name_def)
  have c: "this_evtType ?s \<noteq> nevermatch" by (simp add: new_EventSpec_def)
  have d: "\<not> ((this_evtType ?s = release_none \<or> this_evtType ?s = any)
      \<and> this_regionName ?s = '''')"
    by (simp add: new_EventSpec_def)
  have e: "this_region ?s = None" by (simp add: new_EventSpec_def)
  show ?thesis
    using bindRegion_error_still_matches [OF a b c d e] by (simp add: new_EventSpec_def)
qed

end
